theory Spec2Isabelle
  imports Complex_Main
begin

section \<open>The water shader of src/main.js\<close>

text \<open>
  The program is a three.js scene whose only computation is the pair of GLSL shaders of
  \<^verbatim>\<open>waterMaterial\<close>. A GLSL \<^verbatim>\<open>float\<close> is modelled as a \<^typ>\<open>real\<close>: addition,
  multiplication, division, \<^verbatim>\<open>sin\<close>, \<^verbatim>\<open>floor\<close> and comparison are the exact operations,
  so rounding, infinities and NaN of the binary32 format are outside this development.
  The one exception is the counter of the octave loop, where rounding decides whether the
  loop ends: the loop is given twice, with an exact counter (\<open>small_waves\<close>) and with the
  counter rounded to binary32 after each \<^verbatim>\<open>i++\<close> (\<open>small_waves_binary32\<close>); the two agree
  whenever \<^verbatim>\<open>uSmallIterations\<close> is below \<open>2 ^ 24\<close>.
  Vectors are tuples of components, a \<^verbatim>\<open>mat4\<close> is the tuple of its four columns.
\<close>

type_synonym vec2 = "real \<times> real"
type_synonym vec3 = "real \<times> real \<times> real"
type_synonym vec4 = "real \<times> real \<times> real \<times> real"
type_synonym mat4 = "vec4 \<times> vec4 \<times> vec4 \<times> vec4"

subsection \<open>GLSL built-in functions used by the shaders\<close>

text \<open>\<^verbatim>\<open>fract(x)\<close> is \<^verbatim>\<open>x - floor(x)\<close>.\<close>

definition fract :: "real \<Rightarrow> real" where
  "fract x = x - of_int \<lfloor>x\<rfloor>"

text \<open>\<^verbatim>\<open>vec3(s)\<close> with one scalar argument fills every component with it.\<close>

definition vec3_of :: "real \<Rightarrow> vec3" where
  "vec3_of s = (s, s, s)"

fun dot3 :: "vec3 \<Rightarrow> vec3 \<Rightarrow> real" where
  "dot3 (a1, a2, a3) (b1, b2, b3) = a1 * b1 + a2 * b2 + a3 * b3"

text \<open>\<^verbatim>\<open>floor\<close> of a vector works on each component.\<close>

fun floor3 :: "vec3 \<Rightarrow> vec3" where
  "floor3 (a1, a2, a3) = (of_int \<lfloor>a1\<rfloor>, of_int \<lfloor>a2\<rfloor>, of_int \<lfloor>a3\<rfloor>)"

text \<open>\<^verbatim>\<open>vec3 + float\<close> adds the scalar to each component.\<close>

fun add3_scalar :: "vec3 \<Rightarrow> real \<Rightarrow> vec3" where
  "add3_scalar (a1, a2, a3) s = (a1 + s, a2 + s, a3 + s)"

fun add3 :: "vec3 \<Rightarrow> vec3 \<Rightarrow> vec3" where
  "add3 (a1, a2, a3) (b1, b2, b3) = (a1 + b1, a2 + b2, a3 + b3)"

text \<open>\<^verbatim>\<open>mix(x, y, a)\<close> is \<^verbatim>\<open>x * (1 - a) + y * a\<close> on each component, for any \<^verbatim>\<open>a\<close>.\<close>

fun mix3 :: "vec3 \<Rightarrow> vec3 \<Rightarrow> real \<Rightarrow> vec3" where
  "mix3 (x1, x2, x3) (y1, y2, y3) a =
     (x1 * (1 - a) + y1 * a, x2 * (1 - a) + y2 * a, x3 * (1 - a) + y3 * a)"

text \<open>\<^verbatim>\<open>mat4 * vec4\<close>: the columns of the matrix weighted by the components of the vector.\<close>

fun scale4 :: "real \<Rightarrow> vec4 \<Rightarrow> vec4" where
  "scale4 s (a1, a2, a3, a4) = (s * a1, s * a2, s * a3, s * a4)"

fun add4 :: "vec4 \<Rightarrow> vec4 \<Rightarrow> vec4" where
  "add4 (a1, a2, a3, a4) (b1, b2, b3, b4) = (a1 + b1, a2 + b2, a3 + b3, a4 + b4)"

fun mat4_mul_vec4 :: "mat4 \<Rightarrow> vec4 \<Rightarrow> vec4" where
  "mat4_mul_vec4 (c1, c2, c3, c4) (v1, v2, v3, v4) =
     add4 (add4 (scale4 v1 c1) (scale4 v2 c2)) (add4 (scale4 v3 c3) (scale4 v4 c4))"

subsection \<open>The vertex shader\<close>

text \<open>The uniforms declared by the vertex shader (lines 18 to 25).\<close>

record uniforms =
  uTime :: real
  uBigWavesElevation :: real
  uBigWavesFrequency :: vec2
  uBigWavesSpeed :: real
  uSmallWavesElevation :: real
  uSmallWavesFrequency :: real
  uSmallWavesSpeed :: real
  uSmallIterations :: real

text \<open>The values \<^verbatim>\<open>waterMaterial.uniforms\<close> is created with (lines 63 to 70).\<close>

definition initial_uniforms :: uniforms where
  "initial_uniforms =
     \<lparr> uTime = 0,
       uBigWavesElevation = 0.15,
       uBigWavesFrequency = (1, 1),
       uBigWavesSpeed = 0.75,
       uSmallWavesElevation = 0.15,
       uSmallWavesFrequency = 3,
       uSmallWavesSpeed = 0.2,
       uSmallIterations = 4 \<rparr>"

text \<open>\<^verbatim>\<open>float cnoise(vec3 P)\<close>, lines 30 to 34.\<close>

definition cnoise :: "vec3 \<Rightarrow> real" where
  "cnoise P =
     (let G = (0.030231, 0.070053, 0.010381);
          p = add3 (floor3 (add3_scalar P (dot3 P (vec3_of 0.3333333)))) G
      in fract (sin (dot3 p (12.9898, 78.233, 39.346)) * 43758.5453))"

text \<open>
  The argument of \<^verbatim>\<open>cnoise\<close> in the loop body:
  \<^verbatim>\<open>vec3(modelPosition.xz * uSmallWavesFrequency * i, uTime * uSmallWavesSpeed)\<close>.
\<close>

fun noise_input :: "uniforms \<Rightarrow> vec3 \<Rightarrow> real \<Rightarrow> vec3" where
  "noise_input u (x, y, z) i =
     (x * uSmallWavesFrequency u * i, z * uSmallWavesFrequency u * i,
      uTime u * uSmallWavesSpeed u)"

text \<open>The amount one pass of the loop body takes from \<^verbatim>\<open>elevation\<close> (line 43).\<close>

definition octave :: "uniforms \<Rightarrow> vec3 \<Rightarrow> real \<Rightarrow> real" where
  "octave u modelPosition i =
     \<bar>cnoise (noise_input u modelPosition i) * uSmallWavesElevation u / i\<bar>"

text \<open>
  The loop \<^verbatim>\<open>for (float i = 1.0; i <= uSmallIterations; i++)\<close> of lines 42 to 44, from the
  counter \<open>i\<close> and the running \<open>elevation\<close>. The result is \<open>None\<close> when the loop does not
  end. Here \<^verbatim>\<open>i++\<close> is the exact \<open>i + 1\<close>.
\<close>

partial_function (option) small_waves :: "uniforms \<Rightarrow> vec3 \<Rightarrow> real \<Rightarrow> real \<Rightarrow> real option" where
  "small_waves u modelPosition i elevation =
     (if i \<le> uSmallIterations u
      then small_waves u modelPosition (i + 1) (elevation - octave u modelPosition i)
      else Some elevation)"

text \<open>The initial value of \<^verbatim>\<open>elevation\<close> (lines 38 to 40).\<close>

fun big_waves :: "uniforms \<Rightarrow> vec3 \<Rightarrow> real" where
  "big_waves u (x, y, z) =
     sin (x * fst (uBigWavesFrequency u) + uTime u * uBigWavesSpeed u) *
     sin (z * snd (uBigWavesFrequency u) + uTime u * uBigWavesSpeed u) *
     uBigWavesElevation u"

text \<open>
  The value of the local variable \<^verbatim>\<open>elevation\<close> when line 46 copies it to the varying: the
  big waves, then the loop started at \<^verbatim>\<open>i = 1.0\<close>.
\<close>

definition wave_elevation :: "uniforms \<Rightarrow> vec3 \<Rightarrow> real option" where
  "wave_elevation u modelPosition = small_waves u modelPosition 1 (big_waves u modelPosition)"

text \<open>What one run of the vertex shader writes: the varying and the clip-space position.\<close>

record vertex_output =
  vElevation :: real
  gl_Position :: vec4

fun vec4_of :: "vec3 \<Rightarrow> real \<Rightarrow> vec4" where
  "vec4_of (x, y, z) w = (x, y, z, w)"

text \<open>
  \<^verbatim>\<open>void main()\<close> of the vertex shader, lines 36 to 50. The attribute \<^verbatim>\<open>position\<close> and the
  matrices \<^verbatim>\<open>modelViewMatrix\<close> and \<^verbatim>\<open>projectionMatrix\<close> are supplied by three.js.
\<close>

definition vertex_main :: "uniforms \<Rightarrow> mat4 \<Rightarrow> mat4 \<Rightarrow> vec3 \<Rightarrow> vertex_output option" where
  "vertex_main u modelViewMatrix projectionMatrix position =
     (let modelPosition = position in
      case wave_elevation u modelPosition of
        None \<Rightarrow> None
      | Some elevation \<Rightarrow>
          (let mvPosition = mat4_mul_vec4 modelViewMatrix (vec4_of modelPosition 1)
           in Some \<lparr> vElevation = elevation,
                     gl_Position = mat4_mul_vec4 projectionMatrix mvPosition \<rparr>))"

text \<open>The identity matrix, for runs of the shader with an untransformed mesh.\<close>

definition mat4_identity :: mat4 where
  "mat4_identity = ((1, 0, 0, 0), (0, 1, 0, 0), (0, 0, 1, 0), (0, 0, 0, 1))"

subsection \<open>The loop with its counter in binary32\<close>

text \<open>
  The counter of the loop is a \<^verbatim>\<open>float\<close>. It starts at \<^verbatim>\<open>1.0\<close> and \<^verbatim>\<open>i++\<close> adds \<^verbatim>\<open>1.0\<close>, so it
  only ever holds whole numbers, and each sum is rounded to the nearest binary32 float, a
  tie going to the float whose significand is even. A binary32 float has a significand of
  24 bits: a whole number \<open>n\<close> of more than 24 bits is rounded to a multiple of \<open>2 ^ s\<close>, where
  \<open>s\<close> is the number of bits beyond 24.
\<close>

fun binary32_shift :: "nat \<Rightarrow> nat" where
  "binary32_shift n = (if n < 2 ^ 24 then 0 else Suc (binary32_shift (n div 2)))"

declare binary32_shift.simps [simp del]

text \<open>The binary32 float nearest to the whole number \<open>n\<close> (below the overflow at \<open>2 ^ 128\<close>).\<close>

definition round_binary32 :: "nat \<Rightarrow> nat" where
  "round_binary32 n =
     (let s = binary32_shift n; q = n div 2 ^ s; r = n mod 2 ^ s
      in if 2 * r < 2 ^ s \<or> (2 * r = 2 ^ s \<and> even q) then q * 2 ^ s else (q + 1) * 2 ^ s)"

text \<open>
  The loop of lines 42 to 44 with the counter as the source has it: \<^verbatim>\<open>i++\<close> is the rounded
  sum. The comparison with \<^verbatim>\<open>uSmallIterations\<close> and the body are those of \<open>small_waves\<close>.
\<close>

partial_function (option) small_waves_binary32 ::
    "uniforms \<Rightarrow> vec3 \<Rightarrow> nat \<Rightarrow> real \<Rightarrow> real option" where
  "small_waves_binary32 u modelPosition i elevation =
     (if real i \<le> uSmallIterations u
      then small_waves_binary32 u modelPosition (round_binary32 (i + 1))
             (elevation - octave u modelPosition (real i))
      else Some elevation)"

definition wave_elevation_binary32 :: "uniforms \<Rightarrow> vec3 \<Rightarrow> real option" where
  "wave_elevation_binary32 u modelPosition =
     small_waves_binary32 u modelPosition 1 (big_waves u modelPosition)"

text \<open>\<^verbatim>\<open>void main()\<close> of the vertex shader, lines 36 to 50, with that loop.\<close>

definition vertex_main_binary32 ::
    "uniforms \<Rightarrow> mat4 \<Rightarrow> mat4 \<Rightarrow> vec3 \<Rightarrow> vertex_output option" where
  "vertex_main_binary32 u modelViewMatrix projectionMatrix position =
     (let modelPosition = position in
      case wave_elevation_binary32 u modelPosition of
        None \<Rightarrow> None
      | Some elevation \<Rightarrow>
          (let mvPosition = mat4_mul_vec4 modelViewMatrix (vec4_of modelPosition 1)
           in Some \<lparr> vElevation = elevation,
                     gl_Position = mat4_mul_vec4 projectionMatrix mvPosition \<rparr>))"

subsection \<open>The fragment shader\<close>

text \<open>
  Line 58, the local variable \<^verbatim>\<open>color\<close>, from the uniforms \<^verbatim>\<open>uDepthColor\<close> and
  \<^verbatim>\<open>uSurfaceColor\<close> and the value \<open>e\<close> of the varying \<^verbatim>\<open>vElevation\<close> at the fragment.
\<close>

definition fragment_color :: "vec3 \<Rightarrow> vec3 \<Rightarrow> real \<Rightarrow> vec3" where
  "fragment_color uDepthColor uSurfaceColor e = mix3 uDepthColor uSurfaceColor e"

text \<open>\<^verbatim>\<open>void main()\<close> of the fragment shader, lines 57 to 60: the value of \<^verbatim>\<open>gl_FragColor\<close>.\<close>

definition fragment_main :: "vec3 \<Rightarrow> vec3 \<Rightarrow> real \<Rightarrow> vec4" where
  "fragment_main uDepthColor uSurfaceColor e =
     (let color = fragment_color uDepthColor uSurfaceColor e in vec4_of color 1)"

subsection \<open>The noise function as the specification words it\<close>

text \<open>
  The specification gives the noise as \<^verbatim>\<open>fract(sin(dot(p, gradient)) * scale)\<close> with
  \<open>p\<close> the lattice point \<^verbatim>\<open>floor(P + dot(P, vec3(0.3333333)))\<close> itself. This definition
  follows those words, to be compared with \<^const>\<open>cnoise\<close>.
\<close>

definition cnoise_spec :: "vec3 \<Rightarrow> real" where
  "cnoise_spec P =
     (let p = floor3 (add3_scalar P (dot3 P (vec3_of 0.3333333)))
      in fract (sin (dot3 p (12.9898, 78.233, 39.346)) * 43758.5453))"

section \<open>The octave loop in closed form\<close>

text \<open>
  Started at counter \<open>i\<close>, the loop runs \<open>\<lfloor>uSmallIterations - i\<rfloor> + 1\<close> times (not at all
  when that is negative) and always ends.
\<close>

lemma small_waves_sum:
  "nat (\<lfloor>uSmallIterations u - i\<rfloor> + 1) = m \<Longrightarrow>
   small_waves u mp i e = Some (e - (\<Sum>k<m. octave u mp (i + real k)))"
proof (induction m arbitrary: i e)
  case 0
  then have "\<lfloor>uSmallIterations u - i\<rfloor> < 0" by linarith
  then have "uSmallIterations u - i < of_int 0" by (rule iffD1 [OF floor_less_iff])
  then have "\<not> i \<le> uSmallIterations u" by simp
  then show ?case by (subst small_waves.simps) simp
next
  case (Suc m)
  then have pos: "0 \<le> \<lfloor>uSmallIterations u - i\<rfloor>" by linarith
  then have "0 \<le> uSmallIterations u - i" by (rule iffD1 [OF zero_le_floor])
  then have le: "i \<le> uSmallIterations u" by simp
  have "\<lfloor>uSmallIterations u - (i + 1)\<rfloor> = \<lfloor>uSmallIterations u - i\<rfloor> - 1"
    by (simp add: algebra_simps flip: floor_diff_one)
  with Suc.prems pos have "nat (\<lfloor>uSmallIterations u - (i + 1)\<rfloor> + 1) = m" by linarith
  from Suc.IH [OF this]
  have "small_waves u mp (i + 1) (e - octave u mp i) =
        Some (e - octave u mp i - (\<Sum>k<m. octave u mp (i + 1 + real k)))" .
  moreover have "(\<Sum>k<Suc m. octave u mp (i + real k)) =
                 octave u mp i + (\<Sum>k<m. octave u mp (i + 1 + real k))"
    by (subst sum.lessThan_Suc_shift) (simp add: ac_simps)
  ultimately show ?case using le by (subst small_waves.simps) simp
qed

section \<open>The noise at the origin\<close>

text \<open>
  At \<open>P = (0, 0, 0)\<close> the lattice point is the origin, so \<^const>\<open>cnoise\<close> takes the sine of
  \<open>dot(G, (12.9898, 78.233, 39.346)) = 15704004547 / 2500000000\<close>, a little below \<open>2\<pi>\<close>.
  The sine is enclosed by its Taylor polynomial of degree 25, each term between two
  decimals.
\<close>

lemma taylor_term_1:
  "6281601818 / 10 ^ 9 \<le> (15704004547 / 2500000000 :: real) ^ 1 / fact 1"
  "(15704004547 / 2500000000 :: real) ^ 1 / fact 1 \<le> 6281601819 / 10 ^ 9"
  by (simp_all add: fact_numeral power_divide)

lemma taylor_term_3:
  "41310453309 / 10 ^ 9 \<le> (15704004547 / 2500000000 :: real) ^ 3 / fact 3"
  "(15704004547 / 2500000000 :: real) ^ 3 / fact 3 \<le> 41310453310 / 10 ^ 9"
  by (simp_all add: fact_numeral power_divide)

lemma taylor_term_5:
  "81502470318 / 10 ^ 9 \<le> (15704004547 / 2500000000 :: real) ^ 5 / fact 5"
  "(15704004547 / 2500000000 :: real) ^ 5 / fact 5 \<le> 81502470319 / 10 ^ 9"
  by (simp_all add: fact_numeral power_divide)

lemma taylor_term_7:
  "76570642143 / 10 ^ 9 \<le> (15704004547 / 2500000000 :: real) ^ 7 / fact 7"
  "(15704004547 / 2500000000 :: real) ^ 7 / fact 7 \<le> 76570642144 / 10 ^ 9"
  by (simp_all add: fact_numeral power_divide)

lemma taylor_term_9:
  "41963393366 / 10 ^ 9 \<le> (15704004547 / 2500000000 :: real) ^ 9 / fact 9"
  "(15704004547 / 2500000000 :: real) ^ 9 / fact 9 \<le> 41963393367 / 10 ^ 9"
  by (simp_all add: fact_numeral power_divide)

lemma taylor_term_11:
  "15052849596 / 10 ^ 9 \<le> (15704004547 / 2500000000 :: real) ^ 11 / fact 11"
  "(15704004547 / 2500000000 :: real) ^ 11 / fact 11 \<le> 15052849597 / 10 ^ 9"
  by (simp_all add: fact_numeral power_divide)

lemma taylor_term_13:
  "3807456333 / 10 ^ 9 \<le> (15704004547 / 2500000000 :: real) ^ 13 / fact 13"
  "(15704004547 / 2500000000 :: real) ^ 13 / fact 13 \<le> 3807456334 / 10 ^ 9"
  by (simp_all add: fact_numeral power_divide)

lemma taylor_term_15:
  "715412367 / 10 ^ 9 \<le> (15704004547 / 2500000000 :: real) ^ 15 / fact 15"
  "(15704004547 / 2500000000 :: real) ^ 15 / fact 15 \<le> 715412368 / 10 ^ 9"
  by (simp_all add: fact_numeral power_divide)

lemma taylor_term_17:
  "103783508 / 10 ^ 9 \<le> (15704004547 / 2500000000 :: real) ^ 17 / fact 17"
  "(15704004547 / 2500000000 :: real) ^ 17 / fact 17 \<le> 103783509 / 10 ^ 9"
  by (simp_all add: fact_numeral power_divide)

lemma taylor_term_19:
  "11974104 / 10 ^ 9 \<le> (15704004547 / 2500000000 :: real) ^ 19 / fact 19"
  "(15704004547 / 2500000000 :: real) ^ 19 / fact 19 \<le> 11974105 / 10 ^ 9"
  by (simp_all add: fact_numeral power_divide)

lemma taylor_term_21:
  "1124953 / 10 ^ 9 \<le> (15704004547 / 2500000000 :: real) ^ 21 / fact 21"
  "(15704004547 / 2500000000 :: real) ^ 21 / fact 21 \<le> 1124954 / 10 ^ 9"
  by (simp_all add: fact_numeral power_divide)

lemma taylor_term_23:
  "87725 / 10 ^ 9 \<le> (15704004547 / 2500000000 :: real) ^ 23 / fact 23"
  "(15704004547 / 2500000000 :: real) ^ 23 / fact 23 \<le> 87726 / 10 ^ 9"
  by (simp_all add: fact_numeral power_divide)

lemma taylor_term_25:
  "5769 / 10 ^ 9 \<le> (15704004547 / 2500000000 :: real) ^ 25 / fact 25"
  "(15704004547 / 2500000000 :: real) ^ 25 / fact 25 \<le> 5770 / 10 ^ 9"
  by (simp_all add: fact_numeral power_divide)

lemma taylor_rest_26: "inverse (fact 26) * \<bar>(15704004547 / 2500000000 :: real)\<bar> ^ 26 \<le> 1394 / 10 ^ 9"
  by (simp add: fact_numeral power_divide)

lemma sin_taylor_26:
  "(\<Sum>m<26. sin_coeff m * (x::real) ^ m) =
     x ^ 1 / fact 1 - x ^ 3 / fact 3 + x ^ 5 / fact 5 - x ^ 7 / fact 7 + x ^ 9 / fact 9 - x ^ 11 / fact 11 + x ^ 13 / fact 13 - x ^ 15 / fact 15 + x ^ 17 / fact 17 - x ^ 19 / fact 19 + x ^ 21 / fact 21 - x ^ 23 / fact 23 + x ^ 25 / fact 25"
  by (simp add: sin_coeff_def lessThan_nat_numeral fact_numeral)

lemma sin_G_enclosure:
  "-1584579 / 10 ^ 9 \<le> sin (15704004547 / 2500000000 :: real)"
  "sin (15704004547 / 2500000000 :: real) \<le> -1581778 / 10 ^ 9"
proof -
  let ?c = "15704004547 / 2500000000 :: real"
  have "\<bar>sin ?c - (\<Sum>m<26. sin_coeff m * ?c ^ m)\<bar> \<le> inverse (fact 26) * \<bar>?c\<bar> ^ 26"
    by (rule Maclaurin_sin_bound)
  then have b: "\<bar>sin ?c - (\<Sum>m<26. sin_coeff m * ?c ^ m)\<bar> \<le> 1394 / 10 ^ 9"
    using taylor_rest_26 by linarith
  note t = taylor_term_1 taylor_term_3 taylor_term_5 taylor_term_7 taylor_term_9 taylor_term_11 taylor_term_13 taylor_term_15 taylor_term_17 taylor_term_19 taylor_term_21 taylor_term_23 taylor_term_25
  show "-1584579 / 10 ^ 9 \<le> sin ?c"
    using b t unfolding sin_taylor_26 by linarith
  show "sin ?c \<le> -1581778 / 10 ^ 9"
    using b t unfolding sin_taylor_26 by linarith
qed

lemma sin_G_scaled:
  "- 70 < sin (15704004547 / 2500000000 :: real) * 43758.5453"
  "sin (15704004547 / 2500000000 :: real) * 43758.5453 < - 69"
  using sin_G_enclosure by simp_all

lemma cnoise_origin: "cnoise (0, 0, 0) = sin (15704004547 / 2500000000 :: real) * 43758.5453 + 70"
proof -
  let ?y = "sin (15704004547 / 2500000000 :: real) * 43758.5453"
  have "of_int (- 70) \<le> ?y" "?y < of_int (- 70) + 1"
    using sin_G_scaled by simp_all
  then have "\<lfloor>?y\<rfloor> = - 70" by (rule floor_unique)
  then have "fract ?y = ?y + 70" by (simp add: fract_def)
  moreover have "cnoise (0, 0, 0) = fract ?y"
    by (simp add: cnoise_def vec3_of_def)
  ultimately show ?thesis by simp
qed

lemma cnoise_origin_pos: "0 < cnoise (0, 0, 0)"
  using sin_G_scaled(1) unfolding cnoise_origin by simp

section \<open>Ranges of the parts\<close>

lemma fract_range: "0 \<le> fract x" "fract x < 1"
  unfolding fract_def by linarith+

lemma cnoise_range: "0 \<le> cnoise P" "cnoise P < 1"
  by (simp_all add: cnoise_def Let_def fract_range)

lemma octave_nonneg: "0 \<le> octave u mp i"
  by (simp add: octave_def)

lemma octave_le:
  assumes "0 \<le> uSmallWavesElevation u" and "0 < i"
  shows "octave u mp i \<le> uSmallWavesElevation u / i"
proof -
  let ?n = "cnoise (noise_input u mp i)"
  have "octave u mp i = ?n * uSmallWavesElevation u / i"
    using assms cnoise_range(1) [of "noise_input u mp i"] by (simp add: octave_def)
  also have "\<dots> \<le> 1 * uSmallWavesElevation u / i"
    using assms cnoise_range(2) [of "noise_input u mp i"]
    by (intro divide_right_mono mult_right_mono) simp_all
  finally show ?thesis by simp
qed

lemma big_waves_abs: "\<bar>big_waves u mp\<bar> \<le> \<bar>uBigWavesElevation u\<bar>"
proof -
  obtain x y z where mp: "mp = (x, y, z)" by (cases mp) auto
  let ?a = "sin (x * fst (uBigWavesFrequency u) + uTime u * uBigWavesSpeed u)"
  let ?b = "sin (z * snd (uBigWavesFrequency u) + uTime u * uBigWavesSpeed u)"
  have "\<bar>?a\<bar> * \<bar>?b\<bar> \<le> 1 * 1"
    by (intro mult_mono) simp_all
  then have "\<bar>?a\<bar> * \<bar>?b\<bar> * \<bar>uBigWavesElevation u\<bar> \<le> 1 * \<bar>uBigWavesElevation u\<bar>"
    by (intro mult_right_mono) simp_all
  then show ?thesis by (simp add: mp abs_mult)
qed

section \<open>The elevation in closed form\<close>

lemma wave_elevation_sum:
  "wave_elevation u mp =
     Some (big_waves u mp - (\<Sum>i = 1..nat \<lfloor>uSmallIterations u\<rfloor>. octave u mp (real i)))"
proof -
  let ?m = "nat \<lfloor>uSmallIterations u\<rfloor>"
  have "nat (\<lfloor>uSmallIterations u - 1\<rfloor> + 1) = ?m" by simp
  from small_waves_sum [OF this]
  have "wave_elevation u mp = Some (big_waves u mp - (\<Sum>k<?m. octave u mp (1 + real k)))"
    by (simp add: wave_elevation_def)
  moreover have "(\<Sum>k<?m. octave u mp (1 + real k)) = (\<Sum>i = 1..?m. octave u mp (real i))"
    by (rule sum.reindex_bij_witness [where i = "\<lambda>i. i - 1" and j = "\<lambda>k. k + 1"]) auto
  ultimately show ?thesis by simp
qed

lemma vertex_main_eq:
  "vertex_main u mv pr mp =
     Some \<lparr> vElevation = big_waves u mp - (\<Sum>i = 1..nat \<lfloor>uSmallIterations u\<rfloor>. octave u mp (real i)),
            gl_Position = mat4_mul_vec4 pr (mat4_mul_vec4 mv (vec4_of mp 1)) \<rparr>"
  by (simp add: vertex_main_def wave_elevation_sum)

lemma initial_octave_origin: "octave initial_uniforms (0, 0, 0) i = \<bar>cnoise (0, 0, 0) * 0.15 / i\<bar>"
  by (simp add: octave_def initial_uniforms_def)

lemma initial_elevation_origin:
  "wave_elevation initial_uniforms (0, 0, 0) = Some (- (5 / 16) * cnoise (0, 0, 0))"
proof -
  have n: "nat \<lfloor>uSmallIterations initial_uniforms\<rfloor> = 4" by (simp add: initial_uniforms_def)
  have b: "big_waves initial_uniforms (0, 0, 0) = 0" by (simp add: initial_uniforms_def)
  have s: "{1..4::nat} = {1, 2, 3, 4}" by auto
  have "(\<Sum>i = 1..4::nat. octave initial_uniforms (0, 0, 0) (real i)) = (5 / 16) * cnoise (0, 0, 0)"
    using cnoise_origin_pos unfolding s initial_octave_origin by (simp add: abs_mult)
  then show ?thesis unfolding wave_elevation_sum n b by simp
qed

section \<open>The loop with the binary32 counter\<close>

text \<open>
  Whole numbers up to \<open>2 ^ 24\<close> are binary32 floats. \<open>2 ^ 24 + 1\<close> is not: it lies halfway
  between the floats \<open>2 ^ 24\<close> and \<open>2 ^ 24 + 2\<close> and rounds to \<open>2 ^ 24\<close>, whose significand is
  even. So the counter never passes \<open>2 ^ 24\<close>.
\<close>

lemma round_binary32_small: "n < 2 ^ 24 \<Longrightarrow> round_binary32 n = n"
  by (simp add: round_binary32_def binary32_shift.simps)

lemma round_binary32_16777216: "round_binary32 16777216 = 16777216"
  by (simp add: round_binary32_def binary32_shift.simps)

lemma round_binary32_16777217: "round_binary32 16777217 = 16777216"
  by (simp add: round_binary32_def binary32_shift.simps)

lemma counter_step:
  assumes "i \<le> 16777216"
  shows "round_binary32 (i + 1) \<le> 16777216"
proof (cases "i + 1 < 2 ^ 24")
  case True
  then have "round_binary32 (i + 1) = i + 1" by (rule round_binary32_small)
  with True show ?thesis by simp
next
  case False
  with assms have "i + 1 = 16777216 \<or> i + 1 = 16777217" by auto
  then show ?thesis
    using round_binary32_16777216 round_binary32_16777217 by auto
qed

lemma small_waves_binary32_stuck:
  assumes "small_waves_binary32 u mp i e = Some y"
  shows "\<not> (16777216 \<le> uSmallIterations u \<and> i \<le> 16777216)"
proof (rule small_waves_binary32.raw_induct
    [where P = "\<lambda>u mp i e y. \<not> (16777216 \<le> uSmallIterations u \<and> i \<le> 16777216)", OF _ assms])
  fix f u mp i e y
  assume IH: "\<And>u mp i e y. f u mp i e = Some y \<Longrightarrow>
                \<not> (16777216 \<le> uSmallIterations u \<and> i \<le> 16777216)"
    and step: "(if real i \<le> uSmallIterations u
                then f u mp (round_binary32 (i + 1)) (e - octave u mp (real i))
                else Some e) = Some y"
  show "\<not> (16777216 \<le> uSmallIterations u \<and> i \<le> 16777216)"
  proof
    assume a: "16777216 \<le> uSmallIterations u \<and> i \<le> 16777216"
    then have "real i \<le> uSmallIterations u" by simp
    with step have "f u mp (round_binary32 (i + 1)) (e - octave u mp (real i)) = Some y"
      by simp
    from IH [OF this] have "\<not> round_binary32 (i + 1) \<le> 16777216" using a by simp
    with counter_step [of i] a show False by simp
  qed
qed

lemma small_waves_binary32_None:
  "16777216 \<le> uSmallIterations u \<Longrightarrow> i \<le> 16777216 \<Longrightarrow> small_waves_binary32 u mp i e = None"
  using small_waves_binary32_stuck [of u mp i e] by (cases "small_waves_binary32 u mp i e") auto

lemma small_waves_binary32_exact:
  "nat (\<lfloor>uSmallIterations u - real i\<rfloor> + 1) = m \<Longrightarrow> uSmallIterations u < 16777216 \<Longrightarrow>
   small_waves_binary32 u mp i e = small_waves u mp (real i) e"
proof (induction m arbitrary: i e)
  case 0
  then have "\<lfloor>uSmallIterations u - real i\<rfloor> < 0" by linarith
  then have "uSmallIterations u - real i < of_int 0" by (rule iffD1 [OF floor_less_iff])
  then have "\<not> real i \<le> uSmallIterations u" by simp
  then show ?case
    by (subst small_waves_binary32.simps, subst small_waves.simps) simp
next
  case (Suc m)
  then have pos: "0 \<le> \<lfloor>uSmallIterations u - real i\<rfloor>" by linarith
  then have "0 \<le> uSmallIterations u - real i" by (rule iffD1 [OF zero_le_floor])
  then have le: "real i \<le> uSmallIterations u" by simp
  with Suc.prems(2) have "real i < 16777216" by simp
  then have "i + 1 < 2 ^ 24 \<or> i + 1 = 16777216" by auto
  then have r: "round_binary32 (i + 1) = i + 1"
    using round_binary32_small [of "i + 1"] round_binary32_16777216 by auto
  have "\<lfloor>uSmallIterations u - real (i + 1)\<rfloor> = \<lfloor>uSmallIterations u - real i\<rfloor> - 1"
    by (simp add: algebra_simps flip: floor_diff_one)
  with Suc.prems(1) pos have "nat (\<lfloor>uSmallIterations u - real (i + 1)\<rfloor> + 1) = m" by linarith
  from Suc.IH [OF this Suc.prems(2)]
  have "small_waves_binary32 u mp (i + 1) (e - octave u mp (real i)) =
        small_waves u mp (real (i + 1)) (e - octave u mp (real i))" .
  then show ?case using le r
    by (subst small_waves_binary32.simps, subst small_waves.simps) (simp add: add.commute)
qed

lemma wave_elevation_binary32_exact:
  assumes "uSmallIterations u < 16777216"
  shows "wave_elevation_binary32 u mp = wave_elevation u mp"
  using small_waves_binary32_exact [OF refl assms, where i = 1 and mp = mp and e = "big_waves u mp"]
  by (simp add: wave_elevation_binary32_def wave_elevation_def)

lemma vertex_main_binary32_exact:
  assumes "uSmallIterations u < 16777216"
  shows "vertex_main_binary32 u mv pr mp = vertex_main u mv pr mp"
  by (simp add: vertex_main_binary32_def vertex_main_def wave_elevation_binary32_exact [OF assms])

lemma vertex_main_binary32_None:
  assumes "16777216 \<le> uSmallIterations u"
  shows "vertex_main_binary32 u mv pr mp = None"
  using small_waves_binary32_None [OF assms, where i = 1 and mp = mp and e = "big_waves u mp"]
  by (simp add: vertex_main_binary32_def wave_elevation_binary32_def)

section \<open>The claims\<close>

text \<open>
  C1. The claim: the elevation is applied to each vertex as a vertical displacement, so the
  position handed to rasterization has its height offset by the elevation. The shader
  copies \<^verbatim>\<open>position\<close> to \<^verbatim>\<open>modelPosition\<close>, computes \<^verbatim>\<open>elevation\<close>, and then transforms
  \<^verbatim>\<open>modelPosition\<close> unchanged: no statement adds the elevation to it. At the first frame
  (the initial uniforms, an untransformed mesh) the vertex at the origin has the non-zero
  elevation \<open>- 5/16 * cnoise (0, 0, 0)\<close>, and its \<^verbatim>\<open>gl_Position\<close> is the origin all the same.
\<close>

theorem vertex_main_position_flat:
  "vertex_main initial_uniforms mat4_identity mat4_identity (0, 0, 0) =
     Some \<lparr> vElevation = - (5 / 16) * cnoise (0, 0, 0), gl_Position = (0, 0, 0, 1) \<rparr>
   \<and> - (5 / 16) * cnoise (0, 0, 0) < 0"
proof -
  have "wave_elevation initial_uniforms (0, 0, 0) = Some (- (5 / 16) * cnoise (0, 0, 0))"
    by (rule initial_elevation_origin)
  then have "vertex_main initial_uniforms mat4_identity mat4_identity (0, 0, 0) =
     Some \<lparr> vElevation = - (5 / 16) * cnoise (0, 0, 0), gl_Position = (0, 0, 0, 1) \<rparr>"
    by (simp add: vertex_main_def mat4_identity_def)
  then show ?thesis using cnoise_origin_pos by simp
qed

text \<open>
  For every input the clip-space position is the transformed attribute, whatever the
  uniforms of the waves are.
\<close>

lemma vertex_main_position:
  "map_option gl_Position (vertex_main u mv pr mp) =
     Some (mat4_mul_vec4 pr (mat4_mul_vec4 mv (vec4_of mp 1)))"
  by (simp add: vertex_main_eq)

text \<open>
  C2. With \<^verbatim>\<open>uSmallWavesElevation\<close> in its documented range (not negative), the loop takes
  from the elevation, for each whole \<open>i\<close> from 1 to \<^verbatim>\<open>uSmallIterations\<close> (to its integer part,
  for a value that is not whole), the term
  \<open>\<bar>cnoise ((x, z) * uSmallWavesFrequency * i, uTime * uSmallWavesSpeed)\<bar> * uSmallWavesElevation / i\<close>,
  and nothing at all when \<^verbatim>\<open>uSmallIterations\<close> is 0. (The source takes the absolute value of
  the whole quotient, which is the same term in that range.)
\<close>

theorem small_waves_octaves:
  assumes "0 \<le> uSmallWavesElevation u"
  shows "wave_elevation u (x, y, z) =
           Some (big_waves u (x, y, z) -
             (\<Sum>i = 1..nat \<lfloor>uSmallIterations u\<rfloor>.
                \<bar>cnoise (x * uSmallWavesFrequency u * real i, z * uSmallWavesFrequency u * real i,
                         uTime u * uSmallWavesSpeed u)\<bar> * uSmallWavesElevation u / real i))
         \<and> (uSmallIterations u = 0 \<longrightarrow> wave_elevation u (x, y, z) = Some (big_waves u (x, y, z)))"
proof -
  have "octave u (x, y, z) (real i) =
          \<bar>cnoise (x * uSmallWavesFrequency u * real i, z * uSmallWavesFrequency u * real i,
                   uTime u * uSmallWavesSpeed u)\<bar> * uSmallWavesElevation u / real i" for i
    using assms by (simp add: octave_def abs_mult)
  then show ?thesis by (simp add: wave_elevation_sum)
qed

theorem small_waves_octaves_witness:
  "wave_elevation (initial_uniforms\<lparr>uSmallIterations := 1\<rparr>) (0, 0, 0) =
     Some (- (\<bar>cnoise (0, 0, 0)\<bar> * 0.15))
   \<and> wave_elevation (initial_uniforms\<lparr>uSmallIterations := 0\<rparr>) (0, 0, 0) = Some 0"
proof -
  have "0 \<le> uSmallWavesElevation (initial_uniforms\<lparr>uSmallIterations := 1\<rparr>)"
    by (simp add: initial_uniforms_def)
  from small_waves_octaves [OF this, of 0 0 0]
  have one: "wave_elevation (initial_uniforms\<lparr>uSmallIterations := 1\<rparr>) (0, 0, 0) =
     Some (- (\<bar>cnoise (0, 0, 0)\<bar> * 0.15))"
    by (simp add: initial_uniforms_def)
  have "0 \<le> uSmallWavesElevation (initial_uniforms\<lparr>uSmallIterations := 0\<rparr>)"
    by (simp add: initial_uniforms_def)
  from small_waves_octaves [OF this, of 0 0 0]
  have "wave_elevation (initial_uniforms\<lparr>uSmallIterations := 0\<rparr>) (0, 0, 0) = Some 0"
    by (simp add: initial_uniforms_def)
  with one show ?thesis by simp
qed

text \<open>
  C3. The claim: \<^verbatim>\<open>cnoise(P)\<close> is \<^verbatim>\<open>fract(sin(dot(p, (12.9898, 78.233, 39.346))) * 43758.5453)\<close>
  with \<open>p\<close> the lattice point \<^verbatim>\<open>floor(P + dot(P, vec3(0.3333333)))\<close>, and these are its only
  constants. The source adds the constant vector \<^verbatim>\<open>G = (0.030231, 0.070053, 0.010381)\<close> to the
  lattice point before the dot product. At the origin the claimed formula gives 0 and the
  source a value above 0.
\<close>

theorem cnoise_spec_counterexample: "cnoise (0, 0, 0) \<noteq> cnoise_spec (0, 0, 0)"
proof -
  have "cnoise_spec (0, 0, 0) = 0"
    by (simp add: cnoise_spec_def vec3_of_def fract_def)
  then show ?thesis using cnoise_origin_pos by simp
qed

text \<open>
  C3 as amended: the lattice point is shifted by \<open>G\<close>, a fourth fixed constant.
\<close>

theorem cnoise_formula:
  "cnoise (x, y, z) =
     fract (sin ((of_int \<lfloor>x + (x * 0.3333333 + y * 0.3333333 + z * 0.3333333)\<rfloor> + 0.030231) * 12.9898 +
                 (of_int \<lfloor>y + (x * 0.3333333 + y * 0.3333333 + z * 0.3333333)\<rfloor> + 0.070053) * 78.233 +
                 (of_int \<lfloor>z + (x * 0.3333333 + y * 0.3333333 + z * 0.3333333)\<rfloor> + 0.010381) * 39.346)
            * 43758.5453)"
  by (simp add: cnoise_def vec3_of_def)

text \<open>
  C4. With \<^verbatim>\<open>uSmallIterations = 0\<close> the elevation is exactly
  \<open>sin (x * uBigWavesFrequency.x + uTime * uBigWavesSpeed) *
   sin (z * uBigWavesFrequency.y + uTime * uBigWavesSpeed) * uBigWavesElevation\<close>.
\<close>

theorem no_iterations_big_waves_only:
  assumes "uSmallIterations u = 0"
  shows "wave_elevation u (x, y, z) =
           Some (sin (x * fst (uBigWavesFrequency u) + uTime u * uBigWavesSpeed u) *
                 sin (z * snd (uBigWavesFrequency u) + uTime u * uBigWavesSpeed u) *
                 uBigWavesElevation u)"
  using assms by (simp add: wave_elevation_sum)

theorem no_iterations_big_waves_only_witness:
  "wave_elevation (initial_uniforms\<lparr>uTime := 2, uSmallIterations := 0\<rparr>) (1, 0, 3) =
     Some (sin (5 / 2) * sin (9 / 2) * 0.15)"
proof -
  have "uSmallIterations (initial_uniforms\<lparr>uTime := 2, uSmallIterations := 0\<rparr>) = 0"
    by simp
  from no_iterations_big_waves_only [OF this, of 1 0 3]
  show ?thesis by (simp add: initial_uniforms_def)
qed

text \<open>
  C5. With \<^verbatim>\<open>uBigWavesElevation\<close> and \<^verbatim>\<open>uSmallWavesElevation\<close> in their documented ranges (not
  negative), the shader returns an elevation \<open>e\<close> with
  \<open>\<bar>e\<bar> \<le> uBigWavesElevation + uSmallWavesElevation * (\<Sum>i = 1..uSmallIterations. 1 / i)\<close>.
\<close>

theorem elevation_bound:
  assumes "0 \<le> uBigWavesElevation u" and "0 \<le> uSmallWavesElevation u"
  shows "\<exists>e. wave_elevation u mp = Some e \<and>
           \<bar>e\<bar> \<le> uBigWavesElevation u +
                 uSmallWavesElevation u * (\<Sum>i = 1..nat \<lfloor>uSmallIterations u\<rfloor>. 1 / real i)"
proof -
  let ?I = "{1..nat \<lfloor>uSmallIterations u\<rfloor>}"
  let ?S = "\<Sum>i\<in>?I. octave u mp (real i)"
  have "?S \<le> (\<Sum>i\<in>?I. uSmallWavesElevation u / real i)"
    by (rule sum_mono) (simp add: octave_le assms)
  also have "\<dots> = uSmallWavesElevation u * (\<Sum>i\<in>?I. 1 / real i)"
    by (simp add: sum_distrib_left)
  finally have up: "?S \<le> uSmallWavesElevation u * (\<Sum>i\<in>?I. 1 / real i)" .
  have low: "0 \<le> ?S" by (rule sum_nonneg) (rule octave_nonneg)
  have "\<bar>big_waves u mp\<bar> \<le> uBigWavesElevation u"
    using big_waves_abs [of u mp] assms(1) by simp
  with up low have "\<bar>big_waves u mp - ?S\<bar> \<le>
      uBigWavesElevation u + uSmallWavesElevation u * (\<Sum>i\<in>?I. 1 / real i)"
    by linarith
  then show ?thesis by (simp add: wave_elevation_sum)
qed

theorem elevation_bound_witness:
  "\<exists>e. wave_elevation initial_uniforms (0, 0, 0) = Some e \<and> \<bar>e\<bar> \<le> 37 / 80"
proof -
  have s: "{Suc 0..4} = {1, 2, 3, 4}" by auto
  have sm: "(\<Sum>i = Suc 0..4. 1 / real i) = 25 / 12" unfolding s by simp
  have "0 \<le> uBigWavesElevation initial_uniforms" "0 \<le> uSmallWavesElevation initial_uniforms"
    by (simp_all add: initial_uniforms_def)
  from elevation_bound [OF this, of "(0, 0, 0)"]
  obtain e where e: "wave_elevation initial_uniforms (0, 0, 0) = Some e"
    and b: "\<bar>e\<bar> \<le> uBigWavesElevation initial_uniforms +
              uSmallWavesElevation initial_uniforms *
              (\<Sum>i = 1..nat \<lfloor>uSmallIterations initial_uniforms\<rfloor>. 1 / real i)"
    by blast
  from b have "\<bar>e\<bar> \<le> 37 / 80" by (simp add: initial_uniforms_def sm)
  with e show ?thesis by blast
qed

text \<open>
  C6. The colour of a fragment is \<open>uDepthColor * (1 - e) + uSurfaceColor * e\<close> in each
  component, for every value \<open>e\<close> of the varying: it is \<^verbatim>\<open>uDepthColor\<close> at 0,
  \<^verbatim>\<open>uSurfaceColor\<close> at 1, and affine in \<open>e\<close> (the colour at \<open>(1 - a) * e1 + a * e2\<close> is the
  same combination of the colours at \<open>e1\<close> and \<open>e2\<close>), with no clamping of \<open>e\<close>; it is
  written to \<^verbatim>\<open>gl_FragColor\<close> with alpha 1.
\<close>

theorem fragment_color_affine:
  "fragment_color (d1, d2, d3) (s1, s2, s3) e =
     (d1 * (1 - e) + s1 * e, d2 * (1 - e) + s2 * e, d3 * (1 - e) + s3 * e)
   \<and> fragment_color d s 0 = d
   \<and> fragment_color d s 1 = s
   \<and> fragment_color d s ((1 - a) * e1 + a * e2) =
       mix3 (fragment_color d s e1) (fragment_color d s e2) a
   \<and> fragment_main d s e = vec4_of (fragment_color d s e) 1"
proof -
  obtain a1 a2 a3 where d: "d = (a1, a2, a3)" by (cases d) auto
  obtain b1 b2 b3 where s: "s = (b1, b2, b3)" by (cases s) auto
  show ?thesis
    by (simp add: fragment_color_def fragment_main_def d s algebra_simps)
qed

text \<open>
  C7. The claim: with the default parameters, all as initialized at startup, the
  elevation at \<open>t = 0, x = 0, z = 0\<close> is 0. The startup value of \<^verbatim>\<open>uSmallIterations\<close> is 4,
  so four octaves of the noise at the origin are taken from the big waves, which are 0
  there.
\<close>

theorem initial_origin_elevation_counterexample:
  "wave_elevation initial_uniforms (0, 0, 0) \<noteq> Some 0"
  using cnoise_origin_pos unfolding initial_elevation_origin by simp

text \<open>
  C7 as amended: with the default parameters the big waves at the origin and time 0 are 0,
  the elevation there is \<open>- 5/16 * cnoise (0, 0, 0)\<close>, the four octaves
  \<open>0.15 * (1 + 1/2 + 1/3 + 1/4)\<close> times the noise, and it is 0 once \<^verbatim>\<open>uSmallIterations\<close> is 0.
\<close>

theorem initial_origin_elevation:
  "big_waves initial_uniforms (0, 0, 0) = 0
   \<and> wave_elevation initial_uniforms (0, 0, 0) = Some (- (5 / 16) * cnoise (0, 0, 0))
   \<and> wave_elevation (initial_uniforms\<lparr>uSmallIterations := 0\<rparr>) (0, 0, 0) = Some 0"
proof -
  have "big_waves initial_uniforms (0, 0, 0) = 0" by (simp add: initial_uniforms_def)
  moreover have "wave_elevation (initial_uniforms\<lparr>uSmallIterations := 0\<rparr>) (0, 0, 0) = Some 0"
    by (simp add: wave_elevation_sum initial_uniforms_def)
  ultimately show ?thesis using initial_elevation_origin by simp
qed

text \<open>
  C8. The claim: the evaluator returns a value for every numeric input, negative
  \<^verbatim>\<open>uSmallIterations\<close> included. The counter of the loop is a binary32 float, and from
  \<open>2 ^ 24 = 16777216\<close> on \<^verbatim>\<open>i++\<close> no longer changes it: with \<^verbatim>\<open>uSmallIterations = 16777216\<close>
  the condition \<^verbatim>\<open>i <= uSmallIterations\<close> holds for ever and the shader returns nothing.
\<close>

theorem vertex_main_binary32_counterexample:
  "vertex_main_binary32 (initial_uniforms\<lparr>uSmallIterations := 16777216\<rparr>)
     mat4_identity mat4_identity (0, 0, 0) = None"
  by (rule vertex_main_binary32_None) simp

text \<open>
  C8 as amended: for every \<^verbatim>\<open>uSmallIterations\<close> below \<open>2 ^ 24\<close> the vertex shader returns an
  output, the one computed with an exact counter, whatever the other uniforms, the
  matrices and the attribute are; nothing in it can fail (the divisor \<open>i\<close> is at least 1).
  Below 1, negative values included, the loop body never runs and the elevation is that
  of the big waves. From \<open>2 ^ 24\<close> on the loop does not end.
\<close>

theorem vertex_main_binary32_total:
  "(uSmallIterations u < 16777216 \<longrightarrow>
      (\<exists>out. vertex_main_binary32 u mv pr mp = Some out) \<and>
      vertex_main_binary32 u mv pr mp = vertex_main u mv pr mp)
   \<and> (uSmallIterations u < 1 \<longrightarrow> wave_elevation_binary32 u mp = Some (big_waves u mp))
   \<and> (16777216 \<le> uSmallIterations u \<longrightarrow> vertex_main_binary32 u mv pr mp = None)"
proof -
  have "vertex_main_binary32 u mv pr mp = vertex_main u mv pr mp"
       "\<exists>out. vertex_main_binary32 u mv pr mp = Some out"
    if "uSmallIterations u < 16777216"
    using that by (simp_all add: vertex_main_binary32_exact vertex_main_eq)
  moreover have "wave_elevation_binary32 u mp = Some (big_waves u mp)"
    if "uSmallIterations u < 1"
  proof -
    from that have "uSmallIterations u < 16777216" by simp
    then show ?thesis using that
      by (simp add: wave_elevation_binary32_exact wave_elevation_sum)
  qed
  ultimately show ?thesis using vertex_main_binary32_None [of u mv pr mp] by blast
qed

theorem vertex_main_binary32_total_witness:
  "(\<exists>out. vertex_main_binary32 (initial_uniforms\<lparr>uSmallIterations := - 3\<rparr>)
            mat4_identity mat4_identity (0, 0, 0) = Some out)
   \<and> vertex_main_binary32 (initial_uniforms\<lparr>uSmallIterations := - 3\<rparr>)
        mat4_identity mat4_identity (0, 0, 0) =
      vertex_main (initial_uniforms\<lparr>uSmallIterations := - 3\<rparr>) mat4_identity mat4_identity (0, 0, 0)
   \<and> wave_elevation_binary32 (initial_uniforms\<lparr>uSmallIterations := - 3\<rparr>) (0, 0, 0) = Some 0
   \<and> vertex_main_binary32 (initial_uniforms\<lparr>uSmallIterations := 33554432\<rparr>)
        mat4_identity mat4_identity (1, 0, 2) = None"
proof -
  let ?u = "initial_uniforms\<lparr>uSmallIterations := - 3\<rparr>"
  let ?v = "initial_uniforms\<lparr>uSmallIterations := 33554432\<rparr>"
  have lt: "uSmallIterations ?u < 16777216" and lt1: "uSmallIterations ?u < 1"
    and ge: "16777216 \<le> uSmallIterations ?v"
    by simp_all
  note t = vertex_main_binary32_total [of ?u mat4_identity mat4_identity "(0, 0, 0)"]
  note t' = vertex_main_binary32_total [of ?v mat4_identity mat4_identity "(1, 0, 2)"]
  from t lt have "\<exists>out. vertex_main_binary32 ?u mat4_identity mat4_identity (0, 0, 0) = Some out"
    and "vertex_main_binary32 ?u mat4_identity mat4_identity (0, 0, 0) =
         vertex_main ?u mat4_identity mat4_identity (0, 0, 0)"
    by blast+
  moreover from t lt1 have "wave_elevation_binary32 ?u (0, 0, 0) = Some (big_waves ?u (0, 0, 0))"
    by blast
  then have "wave_elevation_binary32 ?u (0, 0, 0) = Some 0"
    by (simp add: initial_uniforms_def)
  moreover from t' ge
  have "vertex_main_binary32 ?v mat4_identity mat4_identity (1, 0, 2) = None" by blast
  ultimately show ?thesis by blast
qed

text \<open>
  C10. The noise lies in \<open>[0, 1)\<close> and every pass of the loop takes a non-negative amount
  from the elevation. So the elevation is never above the big waves alone, never above
  \<^verbatim>\<open>uBigWavesElevation\<close> when that is in its documented range (not negative), and raising
  \<^verbatim>\<open>uSmallIterations\<close> with everything else fixed never raises the elevation.
\<close>

theorem small_waves_only_lower:
  "0 \<le> cnoise P \<and> cnoise P < 1
   \<and> 0 \<le> octave u mp i
   \<and> (\<exists>e. wave_elevation u mp = Some e
          \<and> e \<le> big_waves u mp
          \<and> (0 \<le> uBigWavesElevation u \<longrightarrow> e \<le> uBigWavesElevation u)
          \<and> (\<forall>n. uSmallIterations u \<le> n \<longrightarrow>
                (\<exists>e'. wave_elevation (u\<lparr>uSmallIterations := n\<rparr>) mp = Some e' \<and> e' \<le> e)))"
proof -
  let ?S = "\<lambda>m::nat. \<Sum>i = 1..m. octave u mp (real i)"
  let ?e = "big_waves u mp - ?S (nat \<lfloor>uSmallIterations u\<rfloor>)"
  have e: "wave_elevation u mp = Some ?e" by (rule wave_elevation_sum)
  have low: "0 \<le> ?S m" for m by (rule sum_nonneg) (rule octave_nonneg)
  then have le: "?e \<le> big_waves u mp" by simp
  have big: "?e \<le> uBigWavesElevation u" if "0 \<le> uBigWavesElevation u"
    using big_waves_abs [of u mp] le that by linarith
  have mono: "\<exists>e'. wave_elevation (u\<lparr>uSmallIterations := n\<rparr>) mp = Some e' \<and> e' \<le> ?e"
    if n: "uSmallIterations u \<le> n" for n
  proof -
    obtain x y z where mp: "mp = (x, y, z)" by (cases mp) auto
    have same: "octave (u\<lparr>uSmallIterations := n\<rparr>) mp j = octave u mp j" for j
      by (simp add: octave_def mp)
    have bsame: "big_waves (u\<lparr>uSmallIterations := n\<rparr>) mp = big_waves u mp"
      by (simp add: mp)
    from n have "nat \<lfloor>uSmallIterations u\<rfloor> \<le> nat \<lfloor>n\<rfloor>"
      by (intro nat_mono floor_mono)
    then have "?S (nat \<lfloor>uSmallIterations u\<rfloor>) \<le> ?S (nat \<lfloor>n\<rfloor>)"
      by (intro sum_mono2) (auto simp: octave_nonneg)
    then show ?thesis
      by (simp add: wave_elevation_sum same bsame)
  qed
  show ?thesis
    using e le big mono cnoise_range [of P] octave_nonneg [of u mp i] by blast
qed

theorem small_waves_only_lower_witness:
  "\<exists>e e'. wave_elevation initial_uniforms (0, 0, 0) = Some e \<and> e \<le> 3 / 20
     \<and> wave_elevation (initial_uniforms\<lparr>uSmallIterations := 5\<rparr>) (0, 0, 0) = Some e' \<and> e' \<le> e"
proof -
  from small_waves_only_lower [of "(0, 0, 0)" initial_uniforms "(0, 0, 0)" 1]
  obtain e where e: "wave_elevation initial_uniforms (0, 0, 0) = Some e"
    and big: "0 \<le> uBigWavesElevation initial_uniforms \<longrightarrow> e \<le> uBigWavesElevation initial_uniforms"
    and mono: "\<forall>n. uSmallIterations initial_uniforms \<le> n \<longrightarrow>
      (\<exists>e'. wave_elevation (initial_uniforms\<lparr>uSmallIterations := n\<rparr>) (0, 0, 0) = Some e' \<and> e' \<le> e)"
    by blast
  from big have "e \<le> 3 / 20" by (simp add: initial_uniforms_def)
  moreover from mono have "\<exists>e'. wave_elevation (initial_uniforms\<lparr>uSmallIterations := 5\<rparr>) (0, 0, 0) = Some e' \<and> e' \<le> e"
    by (simp add: initial_uniforms_def)
  ultimately show ?thesis using e by blast
qed

end
